theory Spec2Isabelle
  imports Main
begin

section \<open>Data model of dict2anki.go\<close>

text \<open>
  The two structs of the program. The JSON names of the fields are given by the struct
  tags of the source: \<open>apiKey\<close> and \<open>deckName\<close> for \<open>Config\<close>; \<open>fl\<close> and
  \<open>shortdef\<close> for \<open>Card\<close>, whose field \<open>Word\<close> has no tag and so goes by its own name.
\<close>

record Config =
  APIKey :: string
  DeckName :: string

record Card =
  Word :: string
  PartOfSpeech :: string
  Definitions :: "string list"

text \<open>The zero values \<open>Config{}\<close> and \<open>Card{}\<close> of Go.\<close>

definition zeroConfig :: Config where
  "zeroConfig = \<lparr>APIKey = '''', DeckName = ''''\<rparr>"

definition zeroCard :: Card where
  "zeroCard = \<lparr>Word = '''', PartOfSpeech = '''', Definitions = []\<rparr>"

text \<open>
  Go's \<open>error\<close> values. \<open>External\<close> is an error made outside the program (operating
  system, network stack, JSON scanner), known by its message; \<open>UnmarshalTypeError\<close> is
  the error of encoding/json for a JSON value of the wrong type for its Go target;
  \<open>ErrorsNew\<close> is \<open>errors.New\<close>.
\<close>

datatype error = External string | UnmarshalTypeError | ErrorsNew string

text \<open>The error of the AnkiConnect client (\<open>*errors.RestErr\<close>), known by its message.\<close>

datatype rest_err = RestErr string

text \<open>
  A run-time panic of Go: an index expression out of range, with the index and the
  length. A function either returns or panics.
\<close>

datatype panic = IndexOutOfRange nat nat

datatype 'a outcome = Return 'a | Panicked panic

text \<open>
  The note sent to AnkiConnect (\<open>ankiconnect.Note\<close>, the fields the program sets);
  \<open>ankiconnect.Fields\<close> is a Go map from field name to text.
\<close>

record Note =
  NoteDeckName :: string
  NoteModelName :: string
  NoteFields :: "string \<rightharpoonup> string"

text \<open>
  An \<open>io.Reader\<close> (an open file, a response body): the bytes it delivers, and how the
  stream ends (\<open>None\<close> is end of file, \<open>Some e\<close> a read error).
\<close>

datatype reader = Reader string "error option"

text \<open>A parsed JSON text. Numbers keep their literal; object members keep their order.\<close>

datatype json =
    JNull
  | JBool bool
  | JNumber string
  | JString string
  | JArray "json list"
  | JObject "(string \<times> json) list"

section \<open>The environment\<close>

text \<open>
  The library functions the program calls whose tables are not part of it, taken as
  parameters: the syntax pass of \<open>json.Unmarshal\<close> over a whole byte string, the next
  JSON value a \<open>json.Decoder\<close> reads from a stream, the case folding encoding/json applies
  to object keys, and \<open>cases.Title(language.AmericanEnglish).String\<close>.
\<close>

record lib =
  scanWhole :: "string \<Rightarrow> error + json"
  scanNext :: "reader \<Rightarrow> error + json"
  foldName :: "string \<Rightarrow> string"
  title :: "string \<Rightarrow> string"

text \<open>
  The world of one run: the argument vector, the home directory, the file system, the
  dictionary server and the AnkiConnect endpoint. \<open>'c\<close> is the card information
  AnkiConnect returns for a search (\<open>ankiconnect.ResultCardsInfo\<close>).
\<close>

record 'c world =
  args :: "string list"
  userHomeDir :: "error + string"
  osOpen :: "string \<Rightarrow> error + reader"
  httpGet :: "string \<Rightarrow> error + reader"
  ankiPing :: "rest_err option"
  ankiCardsGet :: "string \<Rightarrow> rest_err + 'c list"
  ankiNotesAdd :: "Note \<Rightarrow> rest_err option"

text \<open>
  What a run does, in order: the lines it prints with \<open>println\<close> and the calls it makes
  to the outside.
\<close>

datatype event =
    Println string
  | UserHomeDir
  | Open string
  | Close string
  | HttpGet string
  | Ping
  | CardsGet string
  | NotesAdd Note

type_synonym trace = "event list"

section \<open>Library functions with a fixed meaning\<close>

text \<open>\<open>io.ReadAll\<close>: the bytes up to end of file, or the read error.\<close>

fun readAll :: "reader \<Rightarrow> error + string" where
  "readAll (Reader d None) = Inr d"
| "readAll (Reader d (Some e)) = Inl e"

text \<open>\<open>strings.Join\<close>.\<close>

fun stringsJoin :: "string list \<Rightarrow> string \<Rightarrow> string" where
  "stringsJoin [] sep = ''''"
| "stringsJoin [x] sep = x"
| "stringsJoin (x # y # ys) sep = x @ sep @ stringsJoin (y # ys) sep"

text \<open>
  encoding/json, decoding a JSON value into a Go value of a given type. \<open>null\<close> leaves
  a string as it is and makes a slice nil; a value of another JSON type than the target's
  is an \<open>UnmarshalTypeError\<close>. The program drops the decoded value whenever an error
  comes back, so decoding stops at the first one here.
\<close>

fun decodeString :: "json \<Rightarrow> string \<Rightarrow> error + string" where
  "decodeString JNull old = Inr old"
| "decodeString (JString s) old = Inr s"
| "decodeString (JBool b) old = Inl UnmarshalTypeError"
| "decodeString (JNumber n) old = Inl UnmarshalTypeError"
| "decodeString (JArray vs) old = Inl UnmarshalTypeError"
| "decodeString (JObject kvs) old = Inl UnmarshalTypeError"

text \<open>
  A JSON array decoded into a \<open>[]string\<close>. The decoder writes element \<open>i\<close> over what
  the slice's backing array holds at index \<open>i\<close>, so an element \<open>null\<close> keeps the string
  an earlier member of the same name left there, and only an index never written starts
  from the empty string. \<open>b\<close> is the backing array: the strings written so far, index
  by index. The slice is then cut to the number of elements; the backing array keeps what
  lies beyond. An empty array makes a new empty slice and \<open>null\<close> makes the slice nil:
  both leave nothing behind.
\<close>

fun decodeStrings :: "json list \<Rightarrow> string list \<Rightarrow> error + string list" where
  "decodeStrings [] b = Inr []"
| "decodeStrings (v # vs) b =
     (case decodeString v (case b of [] \<Rightarrow> '''' | old # rest \<Rightarrow> old) of
        Inl e \<Rightarrow> Inl e
      | Inr s \<Rightarrow>
          (case decodeStrings vs (tl b) of Inl e \<Rightarrow> Inl e | Inr ss \<Rightarrow> Inr (s # ss)))"

fun decodeStringSlice :: "json \<Rightarrow> string list \<Rightarrow> error + string list \<times> string list" where
  "decodeStringSlice JNull b = Inr ([], [])"
| "decodeStringSlice (JArray vs) b =
     (if vs = [] then Inr ([], [])
      else case decodeStrings vs b of
             Inl e \<Rightarrow> Inl e
           | Inr ss \<Rightarrow> Inr (ss, ss @ drop (length ss) b))"
| "decodeStringSlice (JBool x) b = Inl UnmarshalTypeError"
| "decodeStringSlice (JNumber n) b = Inl UnmarshalTypeError"
| "decodeStringSlice (JString s) b = Inl UnmarshalTypeError"
| "decodeStringSlice (JObject kvs) b = Inl UnmarshalTypeError"

text \<open>
  The struct field an object key goes to: the field of exactly that name, else the first
  field whose folded name is the key's folded name, else none (the member is skipped).
\<close>

definition fieldFor :: "lib \<Rightarrow> string list \<Rightarrow> string \<Rightarrow> string option" where
  "fieldFor lib names k =
     (if k \<in> set names then Some k
      else find (\<lambda>n. foldName lib n = foldName lib k) names)"

definition configFields :: "string list" where
  "configFields = [''apiKey'', ''deckName'']"

definition cardFields :: "string list" where
  "cardFields = [''Word'', ''fl'', ''shortdef'']"

fun decodeConfigMembers :: "lib \<Rightarrow> (string \<times> json) list \<Rightarrow> Config \<Rightarrow> error + Config" where
  "decodeConfigMembers lib [] c = Inr c"
| "decodeConfigMembers lib ((k, v) # kvs) c =
     (case fieldFor lib configFields k of
        None \<Rightarrow> decodeConfigMembers lib kvs c
      | Some f \<Rightarrow>
          if f = ''apiKey'' then
            (case decodeString v (APIKey c) of
               Inl e \<Rightarrow> Inl e
             | Inr s \<Rightarrow> decodeConfigMembers lib kvs (c\<lparr>APIKey := s\<rparr>))
          else
            (case decodeString v (DeckName c) of
               Inl e \<Rightarrow> Inl e
             | Inr s \<Rightarrow> decodeConfigMembers lib kvs (c\<lparr>DeckName := s\<rparr>)))"

fun decodeConfig :: "lib \<Rightarrow> json \<Rightarrow> Config \<Rightarrow> error + Config" where
  "decodeConfig lib JNull c = Inr c"
| "decodeConfig lib (JObject kvs) c = decodeConfigMembers lib kvs c"
| "decodeConfig lib (JBool b) c = Inl UnmarshalTypeError"
| "decodeConfig lib (JNumber n) c = Inl UnmarshalTypeError"
| "decodeConfig lib (JString s) c = Inl UnmarshalTypeError"
| "decodeConfig lib (JArray vs) c = Inl UnmarshalTypeError"

text \<open>
  The members of an object decoded into a \<open>Card\<close>, in their order; \<open>b\<close> is the backing
  array of its \<open>Definitions\<close>.
\<close>

fun decodeCardMembers ::
  "lib \<Rightarrow> (string \<times> json) list \<Rightarrow> Card \<Rightarrow> string list \<Rightarrow> error + Card" where
  "decodeCardMembers lib [] c b = Inr c"
| "decodeCardMembers lib ((k, v) # kvs) c b =
     (case fieldFor lib cardFields k of
        None \<Rightarrow> decodeCardMembers lib kvs c b
      | Some f \<Rightarrow>
          if f = ''Word'' then
            (case decodeString v (Word c) of
               Inl e \<Rightarrow> Inl e
             | Inr s \<Rightarrow> decodeCardMembers lib kvs (c\<lparr>Word := s\<rparr>) b)
          else if f = ''fl'' then
            (case decodeString v (PartOfSpeech c) of
               Inl e \<Rightarrow> Inl e
             | Inr s \<Rightarrow> decodeCardMembers lib kvs (c\<lparr>PartOfSpeech := s\<rparr>) b)
          else
            (case decodeStringSlice v b of
               Inl e \<Rightarrow> Inl e
             | Inr (ss, b') \<Rightarrow> decodeCardMembers lib kvs (c\<lparr>Definitions := ss\<rparr>) b'))"

fun decodeCard :: "lib \<Rightarrow> json \<Rightarrow> Card \<Rightarrow> error + Card" where
  "decodeCard lib JNull c = Inr c"
| "decodeCard lib (JObject kvs) c = decodeCardMembers lib kvs c (Definitions c)"
| "decodeCard lib (JBool b) c = Inl UnmarshalTypeError"
| "decodeCard lib (JNumber n) c = Inl UnmarshalTypeError"
| "decodeCard lib (JString s) c = Inl UnmarshalTypeError"
| "decodeCard lib (JArray vs) c = Inl UnmarshalTypeError"

fun decodeCardList :: "lib \<Rightarrow> json list \<Rightarrow> error + Card list" where
  "decodeCardList lib [] = Inr []"
| "decodeCardList lib (v # vs) =
     (case decodeCard lib v zeroCard of
        Inl e \<Rightarrow> Inl e
      | Inr c \<Rightarrow> (case decodeCardList lib vs of Inl e \<Rightarrow> Inl e | Inr cs \<Rightarrow> Inr (c # cs)))"

fun decodeCards :: "lib \<Rightarrow> json \<Rightarrow> error + Card list" where
  "decodeCards lib JNull = Inr []"
| "decodeCards lib (JArray vs) = decodeCardList lib vs"
| "decodeCards lib (JBool b) = Inl UnmarshalTypeError"
| "decodeCards lib (JNumber n) = Inl UnmarshalTypeError"
| "decodeCards lib (JString s) = Inl UnmarshalTypeError"
| "decodeCards lib (JObject kvs) = Inl UnmarshalTypeError"

text \<open>\<open>decoder.Decode(&newConfig)\<close> on a zero \<open>Config\<close>, and \<open>json.Unmarshal(cardJson, &cards)\<close>.\<close>

definition decoderDecode :: "lib \<Rightarrow> reader \<Rightarrow> error + Config" where
  "decoderDecode lib f =
     (case scanNext lib f of Inl e \<Rightarrow> Inl e | Inr v \<Rightarrow> decodeConfig lib v zeroConfig)"

definition jsonUnmarshal :: "lib \<Rightarrow> string \<Rightarrow> error + Card list" where
  "jsonUnmarshal lib cardJson =
     (case scanWhole lib cardJson of Inl e \<Rightarrow> Inl e | Inr v \<Rightarrow> decodeCards lib v)"

section \<open>The functions of dict2anki.go\<close>

definition helpText :: string where
  "helpText =
     ''dict2anki is a tool for quickly creating Anki cards from words.'' @ [CHR 0x0A] @
     [CHR 0x0A] @
     ''Usage:'' @ [CHR 0x0A] @
     [CHR 0x0A] @
     ''        dict2anki <word>'' @ [CHR 0x0A] @
     [CHR 0x0A] @
     ''Note:'' @ [CHR 0x0A] @
     [CHR 0x0A] @
     [CHR 0x09, CHR 0x09] @
     ''This tool requires a valid Merriam-Webster API key and a deck name specified in the config file located at '' @
     [CHR 0x22] @ ''~/.config/dict2anki/config.json'' @ [CHR 0x22] @ [CHR 0x0A] @
     [CHR 0x09, CHR 0x09] @
     ''Also required is a running instance of Anki with AnkiConnect.''"

definition printHelp :: "trace \<Rightarrow> trace" where
  "printHelp tr = tr @ [Println helpText]"

definition LoadConfig :: "lib \<Rightarrow> 'c world \<Rightarrow> trace \<Rightarrow> (Config \<times> error option) \<times> trace" where
  "LoadConfig lib w tr =
     (case userHomeDir w of
        Inl err \<Rightarrow> ((zeroConfig, Some err), tr @ [UserHomeDir])
      | Inr home \<Rightarrow>
          (let path = home @ ''/.config/dict2anki/config.json'' in
           case osOpen w path of
             Inl err \<Rightarrow> ((zeroConfig, Some err), tr @ [UserHomeDir, Open path])
           | Inr f \<Rightarrow>
               (case decoderDecode lib f of
                  Inl err \<Rightarrow> ((zeroConfig, Some err), tr @ [UserHomeDir, Open path, Close path])
                | Inr newConfig \<Rightarrow>
                    ((newConfig, None), tr @ [UserHomeDir, Open path, Close path]))))"

definition parseResponse :: "lib \<Rightarrow> reader \<Rightarrow> trace \<Rightarrow> (Card \<times> error option) outcome \<times> trace" where
  "parseResponse lib responseBody tr =
     (case readAll responseBody of
        Inl err \<Rightarrow>
          (Return (zeroCard, Some err), tr @ [Println ''Error: Failed to read response body.''])
      | Inr cardJson \<Rightarrow>
          (case jsonUnmarshal lib cardJson of
             Inl err \<Rightarrow>
               (Return (zeroCard, Some err),
                tr @ [Println ''Error: Failed to parse response body JSON.''])
           | Inr cards \<Rightarrow>
               (case cards of
                  [] \<Rightarrow> (Panicked (IndexOutOfRange 0 0), tr)
                | c # cs \<Rightarrow> (Return (c, None), tr))))"

definition requestDefinition ::
  "lib \<Rightarrow> 'c world \<Rightarrow> string \<Rightarrow> string \<Rightarrow> trace \<Rightarrow> (Card \<times> error option) outcome \<times> trace" where
  "requestDefinition lib w word key tr =
     (let url = ''https://www.dictionaryapi.com/api/v3/references/collegiate/json/''
                 @ word @ ''?key='' @ key in
      case httpGet w url of
        Inl err \<Rightarrow>
          (Return (zeroCard, Some err),
           tr @ [HttpGet url, Println ''Error: Failed to contact Merriam-Webster.''])
      | Inr body \<Rightarrow>
          (case parseResponse lib body (tr @ [HttpGet url]) of
             (Panicked p, tr') \<Rightarrow> (Panicked p, tr')
           | (Return (crd, Some err), tr') \<Rightarrow>
               (Return (zeroCard, Some err), tr' @ [Println ''Error: Failed to parse response''])
           | (Return (crd, None), tr') \<Rightarrow> (Return (crd\<lparr>Word := word\<rparr>, None), tr')))"

definition checkDeckForDuplicate ::
  "'c world \<Rightarrow> string \<Rightarrow> string \<Rightarrow> trace \<Rightarrow> (bool \<times> error option) \<times> trace" where
  "checkDeckForDuplicate w word deck tr =
     (let query = [CHR 0x22] @ ''deck:'' @ deck @ [CHR 0x22] @ '' '' @ [CHR 0x22] @ ''front:''
                   @ word @ [CHR 0x22] in
      case ankiCardsGet w query of
        Inl restErr \<Rightarrow> ((False, Some (ErrorsNew ''AnkiConnect error.'')), tr @ [CardsGet query])
      | Inr cards \<Rightarrow>
          if length cards \<noteq> 0 then ((True, None), tr @ [CardsGet query])
          else ((False, None), tr @ [CardsGet query]))"

definition addCardToDeck ::
  "lib \<Rightarrow> 'c world \<Rightarrow> Card \<Rightarrow> string \<Rightarrow> trace \<Rightarrow> error option \<times> trace" where
  "addCardToDeck lib w crd deck tr =
     (let note = \<lparr>NoteDeckName = deck,
                  NoteModelName = ''Basic'',
                  NoteFields = [''Front'' \<mapsto> title lib (Word crd),
                                ''Back'' \<mapsto> PartOfSpeech crd @ ''<br><br>''
                                   @ stringsJoin (Definitions crd) ''<br>'']\<rparr> in
      case ankiNotesAdd w note of
        Some restErr \<Rightarrow> (Some (ErrorsNew ''Ankiconnect error''), tr @ [NotesAdd note])
      | None \<Rightarrow> (None, tr @ [NotesAdd note]))"

text \<open>
  \<open>main\<close>. \<open>os.Args[1]\<close> is an index expression: it panics when the argument vector has
  fewer than two elements. A panic of \<open>requestDefinition\<close> is not recovered.
\<close>

definition main :: "lib \<Rightarrow> 'c world \<Rightarrow> unit outcome \<times> trace" where
  "main lib w =
     (if length (args w) = 0 then (Return (), printHelp [])
      else
        case LoadConfig lib w [] of
          ((config, Some err), tr1) \<Rightarrow>
            (Return (), tr1 @ [Println ''Fatal: Failed to open config file.''])
        | ((config, None), tr1) \<Rightarrow>
            (case ankiPing w of
               Some restErr \<Rightarrow>
                 (Return (),
                  tr1 @ [Ping, Println ''Fatal: Failed to connect to Anki. Is it running? Does it have AnkiConnect?''])
             | None \<Rightarrow>
                 if length (args w) \<le> 1
                 then (Panicked (IndexOutOfRange 1 (length (args w))), tr1 @ [Ping])
                 else
                   (case requestDefinition lib w (args w ! 1) (APIKey config) (tr1 @ [Ping]) of
                      (Panicked p, tr2) \<Rightarrow> (Panicked p, tr2)
                    | (Return (crd, Some err), tr2) \<Rightarrow>
                        (Return (),
                         tr2 @ [Println ''Fatal: Failed to connect to Merriam-Webster and Wiktionary, or failed to parse response.''])
                    | (Return (crd, None), tr2) \<Rightarrow>
                        (let tr3 = tr2 @ [Println (Word crd),
                                          Println (PartOfSpeech crd),
                                          Println (stringsJoin (Definitions crd) [CHR 0x0A])] in
                         case checkDeckForDuplicate w (Word crd) (DeckName config) tr3 of
                           ((duplicateExists, Some err), tr4) \<Rightarrow>
                             (Return (), tr4 @ [Println ''Fatal: Failed to query deck for duplicates.''])
                         | ((duplicateExists, None), tr4) \<Rightarrow>
                             if duplicateExists
                             then (Return (), tr4 @ [Println ''Duplicate detected, omitting.''])
                             else
                               (case addCardToDeck lib w crd (DeckName config) tr4 of
                                  (Some err, tr5) \<Rightarrow>
                                    (Return (), tr5 @ [Println ''Fatal: Failed to add card to deck.''])
                                | (None, tr5) \<Rightarrow> (Return (), tr5 @ [Println ''Done.'']))))))"

text \<open>
  The exit status the Go runtime gives the process: 0 when \<open>main\<close> returns, 2 when it
  panics.
\<close>

fun exitStatus :: "unit outcome \<Rightarrow> nat" where
  "exitStatus (Return u) = 0"
| "exitStatus (Panicked p) = 2"

section \<open>A concrete library and concrete worlds\<close>

text \<open>
  An instance of the library parameters for the examples: ASCII case folding of keys,
  ASCII title casing (the first letter of each space-separated word in upper case, the
  others in lower case), and a scanner that knows the JSON texts the examples use and
  rejects every other input.
\<close>

fun asciiToUpper :: "char \<Rightarrow> char" where
  "asciiToUpper (Char b0 b1 b2 b3 b4 b5 b6 b7) =
     (let n = (of_char (Char b0 b1 b2 b3 b4 b5 b6 b7) :: nat) in
      if 97 \<le> n \<and> n \<le> 122 then Char b0 b1 b2 b3 b4 False b6 b7
      else Char b0 b1 b2 b3 b4 b5 b6 b7)"

fun asciiToLower :: "char \<Rightarrow> char" where
  "asciiToLower (Char b0 b1 b2 b3 b4 b5 b6 b7) =
     (let n = (of_char (Char b0 b1 b2 b3 b4 b5 b6 b7) :: nat) in
      if 65 \<le> n \<and> n \<le> 90 then Char b0 b1 b2 b3 b4 True b6 b7
      else Char b0 b1 b2 b3 b4 b5 b6 b7)"

fun asciiTitleFrom :: "bool \<Rightarrow> string \<Rightarrow> string" where
  "asciiTitleFrom start [] = []"
| "asciiTitleFrom start (c # cs) =
     (if c = CHR '' '' then c # asciiTitleFrom True cs
      else (if start then asciiToUpper c else asciiToLower c) # asciiTitleFrom False cs)"

fun scanTable :: "(string \<times> json) list \<Rightarrow> string \<Rightarrow> error + json" where
  "scanTable [] s = Inl (External ''invalid character'')"
| "scanTable ((t, v) # tvs) s = (if s = t then Inr v else scanTable tvs s)"

definition runBody :: string where
  "runBody = ''[{'' @ [CHR 0x22] @ ''fl'' @ [CHR 0x22] @ '':'' @ [CHR 0x22] @ ''verb''
     @ [CHR 0x22] @ '','' @ [CHR 0x22] @ ''shortdef'' @ [CHR 0x22] @ '':['' @ [CHR 0x22]
     @ ''to move fast'' @ [CHR 0x22] @ '']}]''"

definition runJson :: json where
  "runJson =
     JArray [JObject [(''fl'', JString ''verb''),
                      (''shortdef'', JArray [JString ''to move fast''])]]"

definition twoBody :: string where
  "twoBody = ''[{'' @ [CHR 0x22] @ ''word'' @ [CHR 0x22] @ '':'' @ [CHR 0x22] @ ''sprint''
     @ [CHR 0x22] @ '','' @ [CHR 0x22] @ ''fl'' @ [CHR 0x22] @ '':'' @ [CHR 0x22] @ ''verb''
     @ [CHR 0x22] @ '','' @ [CHR 0x22] @ ''shortdef'' @ [CHR 0x22] @ '':['' @ [CHR 0x22]
     @ ''to move fast'' @ [CHR 0x22] @ '','' @ [CHR 0x22] @ ''to flee'' @ [CHR 0x22] @ '']},{''
     @ [CHR 0x22] @ ''fl'' @ [CHR 0x22] @ '':'' @ [CHR 0x22] @ ''noun'' @ [CHR 0x22] @ ''}]''"

definition twoJson :: json where
  "twoJson =
     JArray [JObject [(''word'', JString ''sprint''),
                      (''fl'', JString ''verb''),
                      (''shortdef'', JArray [JString ''to move fast'', JString ''to flee''])],
             JObject [(''fl'', JString ''noun'')]]"

definition suggestBody :: string where
  "suggestBody = ''['' @ [CHR 0x22] @ ''rub'' @ [CHR 0x22] @ '','' @ [CHR 0x22] @ ''rum''
     @ [CHR 0x22] @ '']''"

definition fullConfigText :: string where
  "fullConfigText = ''{'' @ [CHR 0x22] @ ''apiKey'' @ [CHR 0x22] @ '':'' @ [CHR 0x22] @ ''K''
     @ [CHR 0x22] @ '','' @ [CHR 0x22] @ ''deckName'' @ [CHR 0x22] @ '':'' @ [CHR 0x22]
     @ ''English'' @ [CHR 0x22] @ ''}''"

definition deckOnlyConfigText :: string where
  "deckOnlyConfigText = ''{'' @ [CHR 0x22] @ ''deckName'' @ [CHR 0x22] @ '':'' @ [CHR 0x22]
     @ ''English'' @ [CHR 0x22] @ ''}''"

definition deckNumberConfigText :: string where
  "deckNumberConfigText = ''{'' @ [CHR 0x22] @ ''deckName'' @ [CHR 0x22] @ '':5}''"

definition listConfigText :: string where
  "listConfigText = ''['' @ [CHR 0x22] @ ''K'' @ [CHR 0x22] @ '','' @ [CHR 0x22] @ ''English''
     @ [CHR 0x22] @ '']''"

definition exampleLib :: lib where
  "exampleLib =
     \<lparr>scanWhole =
        scanTable [(runBody, runJson), (twoBody, twoJson), (''[]'', JArray []),
                   (suggestBody, JArray [JString ''rub'', JString ''rum''])],
      scanNext = (\<lambda>r. case r of Reader d t \<Rightarrow>
         scanTable
           [(fullConfigText, JObject [(''apiKey'', JString ''K''), (''deckName'', JString ''English'')]),
            (deckOnlyConfigText, JObject [(''deckName'', JString ''English'')]),
            (deckNumberConfigText, JObject [(''deckName'', JNumber ''5'')]),
            (listConfigText, JArray [JString ''K'', JString ''English''])] d),
      foldName = map asciiToUpper,
      title = asciiTitleFrom True\<rparr>"

text \<open>
  The world of the end-to-end scenario: the word \<open>run\<close>, a complete config file, the
  dictionary answering with one entry, AnkiConnect up, no card in the deck yet.
\<close>

definition configPath :: string where
  "configPath = ''/home/u/.config/dict2anki/config.json''"

definition runUrl :: string where
  "runUrl = ''https://www.dictionaryapi.com/api/v3/references/collegiate/json/run?key=K''"

definition runWorld :: "nat world" where
  "runWorld =
     \<lparr>args = [''dict2anki'', ''run''],
      userHomeDir = Inr ''/home/u'',
      osOpen = (\<lambda>p. if p = configPath then Inr (Reader fullConfigText None)
                       else Inl (External ''no such file or directory'')),
      httpGet = (\<lambda>u. if u = runUrl then Inr (Reader runBody None)
                        else Inl (External ''no such host'')),
      ankiPing = None,
      ankiCardsGet = (\<lambda>q. Inr []),
      ankiNotesAdd = (\<lambda>n. None)\<rparr>"

text \<open>Variations of it, one for each situation the properties below are about.\<close>

definition duplicateWorld :: "nat world" where
  "duplicateWorld = runWorld\<lparr>ankiCardsGet := (\<lambda>q. Inr [1502])\<rparr>"

definition searchFailsWorld :: "nat world" where
  "searchFailsWorld = runWorld\<lparr>ankiCardsGet := (\<lambda>q. Inl (RestErr ''connection refused''))\<rparr>"

definition noWordWorld :: "nat world" where
  "noWordWorld = runWorld\<lparr>args := [''dict2anki'']\<rparr>"

definition emptyArrayWorld :: "nat world" where
  "emptyArrayWorld = runWorld\<lparr>httpGet := (\<lambda>u. Inr (Reader ''[]'' None))\<rparr>"

definition twoEntriesWorld :: "nat world" where
  "twoEntriesWorld = runWorld\<lparr>httpGet := (\<lambda>u. Inr (Reader twoBody None))\<rparr>"

definition netDownWorld :: "nat world" where
  "netDownWorld = runWorld\<lparr>httpGet := (\<lambda>u. Inl (External ''no such host''))\<rparr>"

definition readFailsWorld :: "nat world" where
  "readFailsWorld =
     runWorld\<lparr>httpGet := (\<lambda>u. Inr (Reader ''[{'' (Some (External ''connection reset by peer''))))\<rparr>"

definition suggestionsWorld :: "nat world" where
  "suggestionsWorld = runWorld\<lparr>httpGet := (\<lambda>u. Inr (Reader suggestBody None))\<rparr>"

definition deckOnlyWorld :: "nat world" where
  "deckOnlyWorld = runWorld\<lparr>osOpen := (\<lambda>p. Inr (Reader deckOnlyConfigText None))\<rparr>"

definition deckNumberWorld :: "nat world" where
  "deckNumberWorld = runWorld\<lparr>osOpen := (\<lambda>p. Inr (Reader deckNumberConfigText None))\<rparr>"

definition listConfigWorld :: "nat world" where
  "listConfigWorld = runWorld\<lparr>osOpen := (\<lambda>p. Inr (Reader listConfigText None))\<rparr>"

section \<open>Evaluation of the concrete worlds\<close>

lemmas ex_defs = exampleLib_def runWorld_def runBody_def runJson_def twoBody_def twoJson_def
  suggestBody_def fullConfigText_def deckOnlyConfigText_def deckNumberConfigText_def
  listConfigText_def configPath_def runUrl_def

lemmas fn_defs = main_def LoadConfig_def requestDefinition_def parseResponse_def
  checkDeckForDuplicate_def addCardToDeck_def printHelp_def Let_def

lemmas dec_defs = decoderDecode_def jsonUnmarshal_def fieldFor_def configFields_def
  cardFields_def zeroCard_def zeroConfig_def

text \<open>The end-to-end scenario of the specification: the note is added and \<open>Done.\<close> is the last line.\<close>

lemma main_runWorld:
  "main exampleLib runWorld =
    (Return (),
     [UserHomeDir, Open ''/home/u/.config/dict2anki/config.json'',
      Close ''/home/u/.config/dict2anki/config.json'', Ping,
      HttpGet ''https://www.dictionaryapi.com/api/v3/references/collegiate/json/run?key=K'',
      Println ''run'', Println ''verb'', Println ''to move fast'',
      CardsGet ([CHR 0x22] @ ''deck:English'' @ [CHR 0x22] @ '' '' @ [CHR 0x22] @ ''front:run''
                @ [CHR 0x22]),
      NotesAdd \<lparr>NoteDeckName = ''English'', NoteModelName = ''Basic'',
                 NoteFields = [''Front'' \<mapsto> ''Run'', ''Back'' \<mapsto> ''verb<br><br>to move fast'']\<rparr>,
      Println ''Done.''])"
  by (simp add: fn_defs dec_defs ex_defs)

lemma main_duplicateWorld:
  "main exampleLib duplicateWorld =
    (Return (),
     [UserHomeDir, Open ''/home/u/.config/dict2anki/config.json'',
      Close ''/home/u/.config/dict2anki/config.json'', Ping,
      HttpGet ''https://www.dictionaryapi.com/api/v3/references/collegiate/json/run?key=K'',
      Println ''run'', Println ''verb'', Println ''to move fast'',
      CardsGet ([CHR 0x22] @ ''deck:English'' @ [CHR 0x22] @ '' '' @ [CHR 0x22] @ ''front:run''
                @ [CHR 0x22]),
      Println ''Duplicate detected, omitting.''])"
  by (simp add: fn_defs dec_defs ex_defs duplicateWorld_def)

lemma main_noWordWorld:
  "main exampleLib noWordWorld =
    (Panicked (IndexOutOfRange 1 1),
     [UserHomeDir, Open ''/home/u/.config/dict2anki/config.json'',
      Close ''/home/u/.config/dict2anki/config.json'', Ping])"
  by (simp add: fn_defs dec_defs ex_defs noWordWorld_def)

lemma main_emptyArrayWorld:
  "main exampleLib emptyArrayWorld =
    (Panicked (IndexOutOfRange 0 0),
     [UserHomeDir, Open ''/home/u/.config/dict2anki/config.json'',
      Close ''/home/u/.config/dict2anki/config.json'', Ping,
      HttpGet ''https://www.dictionaryapi.com/api/v3/references/collegiate/json/run?key=K''])"
  by (simp add: fn_defs dec_defs ex_defs emptyArrayWorld_def)

lemma main_netDownWorld:
  "main exampleLib netDownWorld =
    (Return (),
     [UserHomeDir, Open ''/home/u/.config/dict2anki/config.json'',
      Close ''/home/u/.config/dict2anki/config.json'', Ping,
      HttpGet ''https://www.dictionaryapi.com/api/v3/references/collegiate/json/run?key=K'',
      Println ''Error: Failed to contact Merriam-Webster.'',
      Println ''Fatal: Failed to connect to Merriam-Webster and Wiktionary, or failed to parse response.''])"
  by (simp add: fn_defs dec_defs ex_defs netDownWorld_def)

lemma decode_first_of_twoJson:
  "decodeCard exampleLib
     (JObject [(''word'', JString ''sprint''), (''fl'', JString ''verb''),
               (''shortdef'', JArray [JString ''to move fast'', JString ''to flee''])]) zeroCard =
   Inr \<lparr>Word = ''sprint'', PartOfSpeech = ''verb'', Definitions = [''to move fast'', ''to flee'']\<rparr>"
  by (simp add: exampleLib_def fieldFor_def cardFields_def zeroCard_def)

lemma decode_second_of_twoJson:
  "decodeCard exampleLib (JObject [(''fl'', JString ''noun'')]) zeroCard =
   Inr \<lparr>Word = '''', PartOfSpeech = ''noun'', Definitions = []\<rparr>"
  by (simp add: exampleLib_def fieldFor_def cardFields_def zeroCard_def)

text \<open>
  A member given twice: the second \<open>shortdef\<close> array is decoded over the first, so its
  \<open>null\<close> element keeps the string the first array put at that index.
\<close>

lemma decodeCard_repeated_shortdef:
  "decodeCard exampleLib
     (JObject [(''shortdef'', JArray [JString ''a'', JString ''b'']),
               (''shortdef'', JArray [JNull, JString ''c''])]) zeroCard =
   Inr \<lparr>Word = '''', PartOfSpeech = '''', Definitions = [''a'', ''c'']\<rparr>"
  by (simp add: exampleLib_def fieldFor_def cardFields_def zeroCard_def)

text \<open>A run on an entry with two definitions: they are printed on two lines and joined with \<open><br>\<close> in the note.\<close>

lemma main_twoEntriesWorld:
  "main exampleLib twoEntriesWorld =
    (Return (),
     [UserHomeDir, Open ''/home/u/.config/dict2anki/config.json'',
      Close ''/home/u/.config/dict2anki/config.json'', Ping,
      HttpGet ''https://www.dictionaryapi.com/api/v3/references/collegiate/json/run?key=K'',
      Println ''run'', Println ''verb'', Println (''to move fast'' @ [CHR 0x0A] @ ''to flee''),
      CardsGet ([CHR 0x22] @ ''deck:English'' @ [CHR 0x22] @ '' '' @ [CHR 0x22] @ ''front:run''
                @ [CHR 0x22]),
      NotesAdd \<lparr>NoteDeckName = ''English'', NoteModelName = ''Basic'',
                 NoteFields = [''Front'' \<mapsto> ''Run'',
                               ''Back'' \<mapsto> ''verb<br><br>to move fast<br>to flee'']\<rparr>,
      Println ''Done.''])"
  by (simp add: fn_defs dec_defs ex_defs twoEntriesWorld_def)

section \<open>Decoding a config object\<close>

lemma fieldFor_in: "fieldFor lib names k = Some f \<Longrightarrow> f \<in> set names"
  by (auto simp: fieldFor_def find_Some_iff split: if_splits)

lemma decodeString_ok:
  "v = JNull \<or> (\<exists>s. v = JString s) \<Longrightarrow> \<exists>s. decodeString v old = Inr s"
  by auto

text \<open>
  When every member that goes to a field holds a string or \<open>null\<close>, decoding the members
  succeeds, and a field no member goes to keeps the value it had.
\<close>

lemma decodeConfigMembers_ok:
  assumes "\<forall>(k, v) \<in> set kvs.
      fieldFor lib configFields k \<noteq> None \<longrightarrow> v = JNull \<or> (\<exists>s. v = JString s)"
  shows "\<exists>cfg. decodeConfigMembers lib kvs c = Inr cfg \<and>
    ((\<forall>(k, v) \<in> set kvs. fieldFor lib configFields k \<noteq> Some ''apiKey'') \<longrightarrow>
       APIKey cfg = APIKey c) \<and>
    ((\<forall>(k, v) \<in> set kvs. fieldFor lib configFields k \<noteq> Some ''deckName'') \<longrightarrow>
       DeckName cfg = DeckName c)"
  using assms
proof (induction kvs arbitrary: c)
  case Nil
  then show ?case by simp
next
  case (Cons kv kvs)
  obtain k v where kv: "kv = (k, v)" by (cases kv)
  from Cons.prems
  have rest: "\<forall>(k, v) \<in> set kvs.
      fieldFor lib configFields k \<noteq> None \<longrightarrow> v = JNull \<or> (\<exists>s. v = JString s)"
    by simp
  show ?case
  proof (cases "fieldFor lib configFields k")
    case None
    with Cons.IH [OF rest, of c] kv show ?thesis by auto
  next
    case (Some f)
    with Cons.prems kv have tv: "v = JNull \<or> (\<exists>s. v = JString s)" by simp
    from fieldFor_in [OF Some] have f: "f = ''apiKey'' \<or> f = ''deckName''"
      by (simp add: configFields_def)
    show ?thesis
    proof (cases "f = ''apiKey''")
      case True
      from decodeString_ok [OF tv] obtain s where s: "decodeString v (APIKey c) = Inr s"
        by blast
      from Cons.IH [OF rest, of "c\<lparr>APIKey := s\<rparr>"] kv Some True s show ?thesis by auto
    next
      case False
      with f have fd: "f = ''deckName''" by simp
      from decodeString_ok [OF tv] obtain s where s: "decodeString v (DeckName c) = Inr s"
        by blast
      from Cons.IH [OF rest, of "c\<lparr>DeckName := s\<rparr>"] kv Some fd s show ?thesis by auto
    qed
  qed
qed

lemma length_one: "xs \<noteq> [] \<Longrightarrow> length xs \<le> Suc 0 \<Longrightarrow> length xs = Suc 0"
  by (cases xs) auto

section \<open>The response parser and the definition fetcher\<close>

text \<open>
  C1. When the body of the dictionary response reads without error and is the empty JSON
  array, \<open>parseResponse\<close> indexes the empty slice: it panics with an index out of range
  (index 0, length 0) and prints nothing, instead of returning an error; and so does
  \<open>requestDefinition\<close> for every word and key whose GET delivers that body.
\<close>

theorem parseResponse_empty_array_panics:
  assumes "readAll body = Inr bytes" and "scanWhole lib bytes = Inr (JArray [])"
  shows "parseResponse lib body tr = (Panicked (IndexOutOfRange 0 0), tr) \<and>
    (\<forall>w word key.
       httpGet w (''https://www.dictionaryapi.com/api/v3/references/collegiate/json/''
                  @ word @ ''?key='' @ key) = Inr body \<longrightarrow>
       fst (requestDefinition lib w word key tr) = Panicked (IndexOutOfRange 0 0))"
  using assms by (simp add: parseResponse_def requestDefinition_def jsonUnmarshal_def)

theorem parseResponse_empty_array_panics_witness:
  "readAll (Reader ''[]'' None) = Inr ''[]'' \<and>
   scanWhole exampleLib ''[]'' = Inr (JArray []) \<and>
   parseResponse exampleLib (Reader ''[]'' None) [] = (Panicked (IndexOutOfRange 0 0), []) \<and>
   fst (requestDefinition exampleLib emptyArrayWorld ''run'' ''K'' []) =
     Panicked (IndexOutOfRange 0 0)"
proof -
  have r: "readAll (Reader ''[]'' None) = Inr ''[]''" by simp
  have s: "scanWhole exampleLib ''[]'' = Inr (JArray [])"
    by (simp add: ex_defs)
  have g: "httpGet emptyArrayWorld
      (''https://www.dictionaryapi.com/api/v3/references/collegiate/json/''
       @ ''run'' @ ''?key='' @ ''K'') = Inr (Reader ''[]'' None)"
    by (simp add: emptyArrayWorld_def)
  from parseResponse_empty_array_panics [OF r s, of "[]"] g r s show ?thesis by blast
qed

text \<open>
  C2, as amended. When the GET succeeds, the body reads without error and is a JSON array
  with a first element \<open>x\<close>: if \<open>json.Unmarshal\<close> decodes the array into a slice of
  cards without error, \<open>requestDefinition\<close> returns without error the card whose \<open>Word\<close>
  is the word it was called with and whose \<open>PartOfSpeech\<close> and \<open>Definitions\<close> are those
  decoded from \<open>x\<close>, and every card it returns without error is that one: the \<open>Word\<close>
  the decoder may have read from the response is overwritten. If the array does not
  decode (an element is not of the shape of a card), \<open>requestDefinition\<close> returns the
  zero \<open>Card\<close>, whose \<open>Word\<close> is empty, and the decoder's error, after printing the two
  lines of the decode stage.
\<close>

theorem requestDefinition_word_from_input:
  assumes "httpGet w (''https://www.dictionaryapi.com/api/v3/references/collegiate/json/''
                      @ word @ ''?key='' @ key) = Inr body"
    and "readAll body = Inr bytes"
    and "scanWhole lib bytes = Inr (JArray (x # xs))"
  shows "(\<forall>cs. decodeCards lib (JArray (x # xs)) = Inr cs \<longrightarrow>
      (\<exists>c. decodeCard lib x zeroCard = Inr c \<and>
         fst (requestDefinition lib w word key tr) =
           Return (\<lparr>Word = word, PartOfSpeech = PartOfSpeech c, Definitions = Definitions c\<rparr>,
                   None))) \<and>
    (\<forall>crd. fst (requestDefinition lib w word key tr) = Return (crd, None) \<longrightarrow>
      Word crd = word \<and>
      (\<exists>c. decodeCard lib x zeroCard = Inr c \<and>
         PartOfSpeech crd = PartOfSpeech c \<and> Definitions crd = Definitions c)) \<and>
    (\<forall>e. decodeCards lib (JArray (x # xs)) = Inl e \<longrightarrow>
      requestDefinition lib w word key tr =
        (Return (zeroCard, Some e),
         tr @ [HttpGet (''https://www.dictionaryapi.com/api/v3/references/collegiate/json/''
                        @ word @ ''?key='' @ key),
               Println ''Error: Failed to parse response body JSON.'',
               Println ''Error: Failed to parse response'']))"
  using assms
  by (auto simp: parseResponse_def requestDefinition_def jsonUnmarshal_def
           split: sum.splits list.splits)

theorem requestDefinition_word_from_input_witness:
  "httpGet twoEntriesWorld
     (''https://www.dictionaryapi.com/api/v3/references/collegiate/json/''
      @ ''run'' @ ''?key='' @ ''K'') = Inr (Reader twoBody None) \<and>
   readAll (Reader twoBody None) = Inr twoBody \<and>
   scanWhole exampleLib twoBody = Inr twoJson \<and>
   decodeCard exampleLib
     (JObject [(''word'', JString ''sprint''), (''fl'', JString ''verb''),
               (''shortdef'', JArray [JString ''to move fast'', JString ''to flee''])]) zeroCard =
     Inr \<lparr>Word = ''sprint'', PartOfSpeech = ''verb'', Definitions = [''to move fast'', ''to flee'']\<rparr> \<and>
   fst (requestDefinition exampleLib twoEntriesWorld ''run'' ''K'' []) =
     Return (\<lparr>Word = ''run'', PartOfSpeech = ''verb'', Definitions = [''to move fast'', ''to flee'']\<rparr>, None) \<and>
   decodeCards exampleLib (JArray [JString ''rub'', JString ''rum'']) = Inl UnmarshalTypeError \<and>
   requestDefinition exampleLib suggestionsWorld ''run'' ''K'' [] =
     (Return (zeroCard, Some UnmarshalTypeError),
      [HttpGet ''https://www.dictionaryapi.com/api/v3/references/collegiate/json/run?key=K'',
       Println ''Error: Failed to parse response body JSON.'',
       Println ''Error: Failed to parse response''])"
proof -
  let ?x = "JObject [(''word'', JString ''sprint''), (''fl'', JString ''verb''),
               (''shortdef'', JArray [JString ''to move fast'', JString ''to flee''])]"
  let ?xs = "[JObject [(''fl'', JString ''noun'')]]"
  let ?u = "''https://www.dictionaryapi.com/api/v3/references/collegiate/json/''
            @ ''run'' @ ''?key='' @ ''K''"
  have g: "httpGet twoEntriesWorld ?u = Inr (Reader twoBody None)"
    by (simp add: twoEntriesWorld_def)
  have r: "readAll (Reader twoBody None) = Inr twoBody" by simp
  have s: "scanWhole exampleLib twoBody = Inr (JArray (?x # ?xs))"
    by (simp add: ex_defs)
  have d: "decodeCards exampleLib (JArray (?x # ?xs)) =
    Inr [\<lparr>Word = ''sprint'', PartOfSpeech = ''verb'', Definitions = [''to move fast'', ''to flee'']\<rparr>,
         \<lparr>Word = '''', PartOfSpeech = ''noun'', Definitions = []\<rparr>]"
    by (simp add: decode_first_of_twoJson decode_second_of_twoJson del: decodeCard.simps)
  from requestDefinition_word_from_input [OF g r s, of "[]"] d
  have ok: "\<exists>c. decodeCard exampleLib ?x zeroCard = Inr c \<and>
     fst (requestDefinition exampleLib twoEntriesWorld ''run'' ''K'' []) =
       Return (\<lparr>Word = ''run'', PartOfSpeech = PartOfSpeech c, Definitions = Definitions c\<rparr>,
               None)"
    by blast
  have g': "httpGet suggestionsWorld ?u = Inr (Reader suggestBody None)"
    by (simp add: suggestionsWorld_def)
  have r': "readAll (Reader suggestBody None) = Inr suggestBody" by simp
  have s': "scanWhole exampleLib suggestBody = Inr (JArray (JString ''rub'' # [JString ''rum'']))"
    by (simp add: ex_defs)
  have d': "decodeCards exampleLib (JArray (JString ''rub'' # [JString ''rum''])) =
      Inl UnmarshalTypeError"
    by simp
  from requestDefinition_word_from_input [OF g' r' s', of "[]"] d'
  have bad: "requestDefinition exampleLib suggestionsWorld ''run'' ''K'' [] =
     (Return (zeroCard, Some UnmarshalTypeError),
      [] @ [HttpGet ?u, Println ''Error: Failed to parse response body JSON.'',
            Println ''Error: Failed to parse response''])"
    by blast
  from ok bad g r s d' show ?thesis
    by (simp add: decode_first_of_twoJson twoJson_def del: decodeCard.simps)
qed

text \<open>
  C2, as stated, fails: the list of suggestions the dictionary sends for a word it does
  not know is a well-formed JSON array that is not empty, and on it \<open>requestDefinition\<close>
  returns the zero \<open>Card\<close> with the decoder's type error: the \<open>Word\<close> of the card
  returned is empty, not the input word.
\<close>

theorem requestDefinition_suggestions_zero_card:
  "httpGet suggestionsWorld
     (''https://www.dictionaryapi.com/api/v3/references/collegiate/json/''
      @ ''run'' @ ''?key='' @ ''K'') = Inr (Reader suggestBody None) \<and>
   readAll (Reader suggestBody None) = Inr suggestBody \<and>
   scanWhole exampleLib suggestBody = Inr (JArray [JString ''rub'', JString ''rum'']) \<and>
   fst (requestDefinition exampleLib suggestionsWorld ''run'' ''K'' []) =
     Return (zeroCard, Some UnmarshalTypeError) \<and>
   zeroCard = \<lparr>Word = '''', PartOfSpeech = '''', Definitions = []\<rparr> \<and>
   Word zeroCard \<noteq> ''run''"
  by (simp add: fn_defs dec_defs ex_defs suggestionsWorld_def)

text \<open>
  C8, as amended. \<open>requestDefinition\<close> returns an error exactly when one of its three
  stages fails: the GET, reading the body, or \<open>json.Unmarshal\<close> of the body into a slice
  of cards. The error it returns is the failing stage's own error, passed on unchanged
  with the zero \<open>Card\<close>; it is not replaced by one generic error. Each stage prints a line
  of its own first; the read and the decode stages then also print the common line
  \<open>Error: Failed to parse response\<close>.
\<close>

theorem requestDefinition_stage_errors:
  "(httpGet w (''https://www.dictionaryapi.com/api/v3/references/collegiate/json/''
               @ word @ ''?key='' @ key) = Inl e \<longrightarrow>
      requestDefinition lib w word key tr =
        (Return (zeroCard, Some e),
         tr @ [HttpGet (''https://www.dictionaryapi.com/api/v3/references/collegiate/json/''
                        @ word @ ''?key='' @ key),
               Println ''Error: Failed to contact Merriam-Webster.''])) \<and>
   (httpGet w (''https://www.dictionaryapi.com/api/v3/references/collegiate/json/''
               @ word @ ''?key='' @ key) = Inr body \<and>
    readAll body = Inl e \<longrightarrow>
      requestDefinition lib w word key tr =
        (Return (zeroCard, Some e),
         tr @ [HttpGet (''https://www.dictionaryapi.com/api/v3/references/collegiate/json/''
                        @ word @ ''?key='' @ key),
               Println ''Error: Failed to read response body.'',
               Println ''Error: Failed to parse response''])) \<and>
   (httpGet w (''https://www.dictionaryapi.com/api/v3/references/collegiate/json/''
               @ word @ ''?key='' @ key) = Inr body \<and>
    readAll body = Inr bytes \<and> jsonUnmarshal lib bytes = Inl e \<longrightarrow>
      requestDefinition lib w word key tr =
        (Return (zeroCard, Some e),
         tr @ [HttpGet (''https://www.dictionaryapi.com/api/v3/references/collegiate/json/''
                        @ word @ ''?key='' @ key),
               Println ''Error: Failed to parse response body JSON.'',
               Println ''Error: Failed to parse response''])) \<and>
   ((\<exists>c e'. fst (requestDefinition lib w word key tr) = Return (c, Some e')) \<longleftrightarrow>
    (\<exists>e'. httpGet w (''https://www.dictionaryapi.com/api/v3/references/collegiate/json/''
                      @ word @ ''?key='' @ key) = Inl e') \<or>
    (\<exists>b. httpGet w (''https://www.dictionaryapi.com/api/v3/references/collegiate/json/''
                     @ word @ ''?key='' @ key) = Inr b \<and>
       ((\<exists>e'. readAll b = Inl e') \<or>
        (\<exists>bs e'. readAll b = Inr bs \<and> jsonUnmarshal lib bs = Inl e'))))"
  by (auto simp: requestDefinition_def parseResponse_def Let_def split: sum.splits list.splits)

theorem requestDefinition_stage_errors_witness:
  "requestDefinition exampleLib netDownWorld ''run'' ''K'' [] =
     (Return (zeroCard, Some (External ''no such host'')),
      [HttpGet ''https://www.dictionaryapi.com/api/v3/references/collegiate/json/run?key=K'',
       Println ''Error: Failed to contact Merriam-Webster.'']) \<and>
   requestDefinition exampleLib readFailsWorld ''run'' ''K'' [] =
     (Return (zeroCard, Some (External ''connection reset by peer'')),
      [HttpGet ''https://www.dictionaryapi.com/api/v3/references/collegiate/json/run?key=K'',
       Println ''Error: Failed to read response body.'',
       Println ''Error: Failed to parse response'']) \<and>
   requestDefinition exampleLib suggestionsWorld ''run'' ''K'' [] =
     (Return (zeroCard, Some UnmarshalTypeError),
      [HttpGet ''https://www.dictionaryapi.com/api/v3/references/collegiate/json/run?key=K'',
       Println ''Error: Failed to parse response body JSON.'',
       Println ''Error: Failed to parse response''])"
proof -
  let ?u = "''https://www.dictionaryapi.com/api/v3/references/collegiate/json/''
            @ ''run'' @ ''?key='' @ ''K''"
  let ?rb = "Reader ''[{'' (Some (External ''connection reset by peer''))"
  have g1: "httpGet netDownWorld ?u = Inl (External ''no such host'')"
    by (simp add: netDownWorld_def)
  have g2: "httpGet readFailsWorld ?u = Inr ?rb \<and>
      readAll ?rb = Inl (External ''connection reset by peer'')"
    by (simp add: readFailsWorld_def)
  have g3: "httpGet suggestionsWorld ?u = Inr (Reader suggestBody None) \<and>
      readAll (Reader suggestBody None) = Inr suggestBody \<and>
      jsonUnmarshal exampleLib suggestBody = Inl UnmarshalTypeError"
    by (simp add: suggestionsWorld_def jsonUnmarshal_def ex_defs)
  from requestDefinition_stage_errors
         [of netDownWorld "''run''" "''K''" "External ''no such host''" exampleLib "[]"] g1
       requestDefinition_stage_errors
         [of readFailsWorld "''run''" "''K''" "External ''connection reset by peer''"
             exampleLib "[]" ?rb] g2
       requestDefinition_stage_errors
         [of suggestionsWorld "''run''" "''K''" UnmarshalTypeError exampleLib "[]"
             "Reader suggestBody None" suggestBody] g3
  show ?thesis by simp
qed

text \<open>
  C8, as stated, fails: the three failing stages do not surface as one generic error.
  A refused connection, a body that breaks off and a body of the wrong JSON shape give the
  caller three different error values.
\<close>

theorem requestDefinition_errors_differ:
  "fst (requestDefinition exampleLib netDownWorld ''run'' ''K'' []) =
     Return (zeroCard, Some (External ''no such host'')) \<and>
   fst (requestDefinition exampleLib readFailsWorld ''run'' ''K'' []) =
     Return (zeroCard, Some (External ''connection reset by peer'')) \<and>
   fst (requestDefinition exampleLib suggestionsWorld ''run'' ''K'' []) =
     Return (zeroCard, Some UnmarshalTypeError) \<and>
   fst (requestDefinition exampleLib netDownWorld ''run'' ''K'' []) \<noteq>
     fst (requestDefinition exampleLib readFailsWorld ''run'' ''K'' []) \<and>
   fst (requestDefinition exampleLib netDownWorld ''run'' ''K'' []) \<noteq>
     fst (requestDefinition exampleLib suggestionsWorld ''run'' ''K'' []) \<and>
   fst (requestDefinition exampleLib readFailsWorld ''run'' ''K'' []) \<noteq>
     fst (requestDefinition exampleLib suggestionsWorld ''run'' ''K'' [])"
  by (simp add: fn_defs dec_defs ex_defs netDownWorld_def readFailsWorld_def suggestionsWorld_def)

section \<open>The flashcard client operations\<close>

text \<open>
  C4. With the search expression \<open>checkDeckForDuplicate\<close> builds from the deck and the
  word: when the search succeeds with the cards \<open>cs\<close>, the function returns no error and
  the boolean \<open>cs \<noteq> []\<close> (true for at least one card, false for none); when the search
  fails, it returns false and the error \<open>errors.New("AnkiConnect error.")\<close>, whatever the
  client's error was.
\<close>

theorem checkDeckForDuplicate_result:
  "(ankiCardsGet w ([CHR 0x22] @ ''deck:'' @ deck @ [CHR 0x22] @ '' '' @ [CHR 0x22]
                    @ ''front:'' @ word @ [CHR 0x22]) = Inr cs \<longrightarrow>
      fst (checkDeckForDuplicate w word deck tr) = (cs \<noteq> [], None)) \<and>
   (ankiCardsGet w ([CHR 0x22] @ ''deck:'' @ deck @ [CHR 0x22] @ '' '' @ [CHR 0x22]
                    @ ''front:'' @ word @ [CHR 0x22]) = Inl restErr \<longrightarrow>
      fst (checkDeckForDuplicate w word deck tr) =
        (False, Some (ErrorsNew ''AnkiConnect error.'')))"
  by (simp add: checkDeckForDuplicate_def Let_def)

theorem checkDeckForDuplicate_result_witness:
  "fst (checkDeckForDuplicate duplicateWorld ''run'' ''English'' []) = (True, None) \<and>
   fst (checkDeckForDuplicate runWorld ''run'' ''English'' []) = (False, None) \<and>
   fst (checkDeckForDuplicate searchFailsWorld ''run'' ''English'' []) =
     (False, Some (ErrorsNew ''AnkiConnect error.''))"
proof -
  let ?q = "[CHR 0x22] @ ''deck:'' @ ''English'' @ [CHR 0x22] @ '' '' @ [CHR 0x22]
            @ ''front:'' @ ''run'' @ [CHR 0x22]"
  have a: "ankiCardsGet duplicateWorld ?q = Inr [1502]"
    by (simp add: duplicateWorld_def)
  have b: "ankiCardsGet runWorld ?q = Inr []"
    by (simp add: runWorld_def)
  have c: "ankiCardsGet searchFailsWorld ?q = Inl (RestErr ''connection refused'')"
    by (simp add: searchFailsWorld_def)
  from checkDeckForDuplicate_result [of duplicateWorld "''English''" "''run''" "[1502]" "[]"] a
    checkDeckForDuplicate_result [of runWorld "''English''" "''run''" "[]" "[]"] b
    checkDeckForDuplicate_result
      [of searchFailsWorld "''English''" "''run''" _ "[]" "RestErr ''connection refused''"] c
  show ?thesis by simp
qed

text \<open>
  C10. The one call \<open>checkDeckForDuplicate\<close> makes is the card search with the expression
  made of a double quote, \<open>deck:\<close>, the deck name, a double quote, a space, a double quote,
  \<open>front:\<close>, the word and a double quote: both names are spliced in as they are. Nothing
  is escaped, so a double quote inside a name changes what the expression says: the word
  \<open>b" "front:c\<close> in the deck \<open>a\<close> and the word \<open>c\<close> in the deck \<open>a" "front:b\<close> are
  searched with the same expression.
\<close>

theorem checkDeckForDuplicate_query:
  "snd (checkDeckForDuplicate w word deck tr) =
     tr @ [CardsGet ([CHR 0x22] @ ''deck:'' @ deck @ [CHR 0x22] @ '' '' @ [CHR 0x22]
                     @ ''front:'' @ word @ [CHR 0x22])] \<and>
   snd (checkDeckForDuplicate w (''b'' @ [CHR 0x22] @ '' '' @ [CHR 0x22] @ ''front:c'') ''a'' tr) =
     tr @ [CardsGet ([CHR 0x22] @ ''deck:a'' @ [CHR 0x22] @ '' '' @ [CHR 0x22] @ ''front:b''
                     @ [CHR 0x22] @ '' '' @ [CHR 0x22] @ ''front:c'' @ [CHR 0x22])] \<and>
   snd (checkDeckForDuplicate w ''c'' (''a'' @ [CHR 0x22] @ '' '' @ [CHR 0x22] @ ''front:b'') tr) =
     tr @ [CardsGet ([CHR 0x22] @ ''deck:a'' @ [CHR 0x22] @ '' '' @ [CHR 0x22] @ ''front:b''
                     @ [CHR 0x22] @ '' '' @ [CHR 0x22] @ ''front:c'' @ [CHR 0x22])]"
  by (simp add: checkDeckForDuplicate_def Let_def split: sum.splits)

text \<open>
  \<open>strings.Join\<close> said without recursion on pairs: the first string, then each later
  string with the separator before it.
\<close>

lemma stringsJoin_concat:
  "stringsJoin (x # xs) sep = x @ concat (map (\<lambda>y. sep @ y) xs)"
  by (induction xs arbitrary: x) simp_all

text \<open>
  C3. For every card and deck name, the one call \<open>addCardToDeck\<close> makes submits a note
  in the given deck, of the note type \<open>Basic\<close>, with exactly the two fields \<open>Front\<close>, the
  title-cased word, and \<open>Back\<close>, the part of speech, then \<open><br><br>\<close>, then the
  definitions joined with \<open><br>\<close>: nothing for no definition, else the first
  definition followed by each later one with \<open><br>\<close> before it. With ASCII title casing,
  the word \<open>run\<close>, the part of speech \<open>verb\<close> and the one definition \<open>to move fast\<close>
  give \<open>Run\<close> and \<open>verb<br><br>to move fast\<close> in the deck \<open>English\<close>; three
  definitions give \<open>verb<br><br>to move fast<br>to flee<br>to operate\<close>, and none
  gives \<open>verb<br><br>\<close>.
\<close>

theorem addCardToDeck_note:
  "(\<exists>n. snd (addCardToDeck lib w crd deck tr) = tr @ [NotesAdd n] \<and>
        NoteDeckName n = deck \<and> NoteModelName n = ''Basic'' \<and>
        dom (NoteFields n) = {''Front'', ''Back''} \<and>
        NoteFields n ''Front'' = Some (title lib (Word crd)) \<and>
        NoteFields n ''Back'' =
          Some (PartOfSpeech crd @ ''<br><br>'' @ stringsJoin (Definitions crd) ''<br>'') \<and>
        NoteFields n ''Back'' =
          Some (PartOfSpeech crd @ ''<br><br>'' @
                (case Definitions crd of
                   [] \<Rightarrow> ''''
                 | d # ds \<Rightarrow> d @ concat (map (\<lambda>y. ''<br>'' @ y) ds)))) \<and>
   snd (addCardToDeck exampleLib w
          \<lparr>Word = ''run'', PartOfSpeech = ''verb'', Definitions = [''to move fast'']\<rparr>
          ''English'' tr) =
     tr @ [NotesAdd \<lparr>NoteDeckName = ''English'', NoteModelName = ''Basic'',
                     NoteFields = [''Front'' \<mapsto> ''Run'',
                                   ''Back'' \<mapsto> ''verb<br><br>to move fast'']\<rparr>] \<and>
   snd (addCardToDeck exampleLib w
          \<lparr>Word = ''run'', PartOfSpeech = ''verb'',
             Definitions = [''to move fast'', ''to flee'', ''to operate'']\<rparr>
          ''English'' tr) =
     tr @ [NotesAdd \<lparr>NoteDeckName = ''English'', NoteModelName = ''Basic'',
                     NoteFields = [''Front'' \<mapsto> ''Run'',
                                   ''Back'' \<mapsto> ''verb<br><br>to move fast<br>to flee<br>to operate'']\<rparr>] \<and>
   snd (addCardToDeck exampleLib w
          \<lparr>Word = ''run'', PartOfSpeech = ''verb'', Definitions = []\<rparr>
          ''English'' tr) =
     tr @ [NotesAdd \<lparr>NoteDeckName = ''English'', NoteModelName = ''Basic'',
                     NoteFields = [''Front'' \<mapsto> ''Run'', ''Back'' \<mapsto> ''verb<br><br>'']\<rparr>]"
proof -
  have t: "title exampleLib ''run'' = ''Run''"
    by (simp add: exampleLib_def)
  have j: "stringsJoin (Definitions crd) ''<br>'' =
      (case Definitions crd of [] \<Rightarrow> '''' | d # ds \<Rightarrow> d @ concat (map (\<lambda>y. ''<br>'' @ y) ds))"
    by (cases "Definitions crd") (simp_all only: stringsJoin.simps(1) stringsJoin_concat list.case)
  have general: "\<exists>n. snd (addCardToDeck lib w crd deck tr) = tr @ [NotesAdd n] \<and>
        NoteDeckName n = deck \<and> NoteModelName n = ''Basic'' \<and>
        dom (NoteFields n) = {''Front'', ''Back''} \<and>
        NoteFields n ''Front'' = Some (title lib (Word crd)) \<and>
        NoteFields n ''Back'' =
          Some (PartOfSpeech crd @ ''<br><br>'' @ stringsJoin (Definitions crd) ''<br>'') \<and>
        NoteFields n ''Back'' =
          Some (PartOfSpeech crd @ ''<br><br>'' @
                (case Definitions crd of
                   [] \<Rightarrow> ''''
                 | d # ds \<Rightarrow> d @ concat (map (\<lambda>y. ''<br>'' @ y) ds)))"
    unfolding j [symmetric]
    by (auto simp: addCardToDeck_def Let_def split: option.splits)
  have one: "snd (addCardToDeck exampleLib w
          \<lparr>Word = ''run'', PartOfSpeech = ''verb'', Definitions = [''to move fast'']\<rparr>
          ''English'' tr) =
     tr @ [NotesAdd \<lparr>NoteDeckName = ''English'', NoteModelName = ''Basic'',
                     NoteFields = [''Front'' \<mapsto> ''Run'',
                                   ''Back'' \<mapsto> ''verb<br><br>to move fast'']\<rparr>]"
    by (auto simp: addCardToDeck_def Let_def t split: option.splits)
  have three: "snd (addCardToDeck exampleLib w
          \<lparr>Word = ''run'', PartOfSpeech = ''verb'',
             Definitions = [''to move fast'', ''to flee'', ''to operate'']\<rparr>
          ''English'' tr) =
     tr @ [NotesAdd \<lparr>NoteDeckName = ''English'', NoteModelName = ''Basic'',
                     NoteFields = [''Front'' \<mapsto> ''Run'',
                                   ''Back'' \<mapsto> ''verb<br><br>to move fast<br>to flee<br>to operate'']\<rparr>]"
    by (auto simp: addCardToDeck_def Let_def t split: option.splits)
  have none: "snd (addCardToDeck exampleLib w
          \<lparr>Word = ''run'', PartOfSpeech = ''verb'', Definitions = []\<rparr>
          ''English'' tr) =
     tr @ [NotesAdd \<lparr>NoteDeckName = ''English'', NoteModelName = ''Basic'',
                     NoteFields = [''Front'' \<mapsto> ''Run'', ''Back'' \<mapsto> ''verb<br><br>'']\<rparr>]"
    by (auto simp: addCardToDeck_def Let_def t split: option.splits)
  from general one three none show ?thesis by blast
qed

section \<open>The config loader\<close>

lemma decodeString_bad:
  "\<not> (v = JNull \<or> (\<exists>s. v = JString s)) \<Longrightarrow> decodeString v old = Inl UnmarshalTypeError"
  by (cases v) auto

text \<open>
  When some member that goes to a field holds neither a string nor \<open>null\<close>, decoding the
  members fails with the type error.
\<close>

lemma decodeConfigMembers_fail:
  assumes "\<exists>(k, v) \<in> set kvs.
      fieldFor lib configFields k \<noteq> None \<and> \<not> (v = JNull \<or> (\<exists>s. v = JString s))"
  shows "decodeConfigMembers lib kvs c = Inl UnmarshalTypeError"
  using assms
proof (induction kvs arbitrary: c)
  case Nil
  then show ?case by simp
next
  case (Cons kv kvs)
  obtain k v where kv: "kv = (k, v)" by (cases kv)
  show ?case
  proof (cases "fieldFor lib configFields k \<noteq> None \<and> \<not> (v = JNull \<or> (\<exists>s. v = JString s))")
    case True
    then obtain f where f: "fieldFor lib configFields k = Some f" by auto
    from True have "decodeString v (APIKey c) = Inl UnmarshalTypeError"
      and "decodeString v (DeckName c) = Inl UnmarshalTypeError"
      by (simp_all add: decodeString_bad)
    with kv f show ?thesis by simp
  next
    case False
    with Cons.prems kv
    have rest: "\<exists>(k, v) \<in> set kvs.
        fieldFor lib configFields k \<noteq> None \<and> \<not> (v = JNull \<or> (\<exists>s. v = JString s))"
      by auto
    show ?thesis
    proof (cases "fieldFor lib configFields k")
      case None
      with Cons.IH [OF rest, of c] kv show ?thesis by simp
    next
      case (Some f)
      with False have tv: "v = JNull \<or> (\<exists>s. v = JString s)" by simp
      from decodeString_ok [OF tv] obtain s1 where s1: "decodeString v (APIKey c) = Inr s1"
        by blast
      from decodeString_ok [OF tv] obtain s2 where s2: "decodeString v (DeckName c) = Inr s2"
        by blast
      from Cons.IH [OF rest, of "c\<lparr>APIKey := s1\<rparr>"] Cons.IH [OF rest, of "c\<lparr>DeckName := s2\<rparr>"]
        kv Some s1 s2
      show ?thesis by simp
    qed
  qed
qed

text \<open>
  C7, as amended. When the home directory is known, the config file opens and the decoder
  finds a JSON value in it: if the value is \<open>null\<close> or an object in which every member
  that goes to \<open>apiKey\<close> or \<open>deckName\<close> (by its exact key, or by its folded key) holds a
  string or \<open>null\<close>, \<open>LoadConfig\<close> returns no error, and a field no member goes to is
  the empty string in the \<open>Config\<close> it returns: no default is put in its place. If the
  value is an object in which some member that goes to one of the two fields holds a value
  of another JSON type, or if it is a boolean, a number, a string or an array,
  \<open>LoadConfig\<close> returns the zero \<open>Config\<close> and the decoder's type error.
\<close>

theorem LoadConfig_missing_field_empty:
  assumes "userHomeDir w = Inr home"
    and "osOpen w (home @ ''/.config/dict2anki/config.json'') = Inr f"
    and "scanNext lib f = Inr j"
  shows "((j = JObject kvs \<or> j = JNull \<and> kvs = []) \<and>
      (\<forall>(k, v) \<in> set kvs.
         fieldFor lib configFields k \<noteq> None \<longrightarrow> v = JNull \<or> (\<exists>s. v = JString s)) \<longrightarrow>
      (\<exists>cfg. fst (LoadConfig lib w tr) = (cfg, None) \<and>
         ((\<forall>(k, v) \<in> set kvs. fieldFor lib configFields k \<noteq> Some ''apiKey'') \<longrightarrow>
            APIKey cfg = '''') \<and>
         ((\<forall>(k, v) \<in> set kvs. fieldFor lib configFields k \<noteq> Some ''deckName'') \<longrightarrow>
            DeckName cfg = ''''))) \<and>
    (j = JObject kvs \<and>
      (\<exists>(k, v) \<in> set kvs.
         fieldFor lib configFields k \<noteq> None \<and> \<not> (v = JNull \<or> (\<exists>s. v = JString s))) \<longrightarrow>
      fst (LoadConfig lib w tr) = (zeroConfig, Some UnmarshalTypeError)) \<and>
    ((\<exists>x. j = JBool x) \<or> (\<exists>n. j = JNumber n) \<or> (\<exists>s. j = JString s) \<or> (\<exists>vs. j = JArray vs) \<longrightarrow>
      fst (LoadConfig lib w tr) = (zeroConfig, Some UnmarshalTypeError))"
proof (intro conjI impI)
  assume h: "(j = JObject kvs \<or> j = JNull \<and> kvs = []) \<and>
      (\<forall>(k, v) \<in> set kvs.
         fieldFor lib configFields k \<noteq> None \<longrightarrow> v = JNull \<or> (\<exists>s. v = JString s))"
  then have shape: "j = JObject kvs \<or> j = JNull \<and> kvs = []"
    and typed: "\<forall>(k, v) \<in> set kvs.
         fieldFor lib configFields k \<noteq> None \<longrightarrow> v = JNull \<or> (\<exists>s. v = JString s)"
    by blast+
  from decodeConfigMembers_ok [OF typed, of zeroConfig]
  obtain cfg where c: "decodeConfigMembers lib kvs zeroConfig = Inr cfg"
    and a: "(\<forall>(k, v) \<in> set kvs. fieldFor lib configFields k \<noteq> Some ''apiKey'') \<longrightarrow>
              APIKey cfg = APIKey zeroConfig"
    and d: "(\<forall>(k, v) \<in> set kvs. fieldFor lib configFields k \<noteq> Some ''deckName'') \<longrightarrow>
              DeckName cfg = DeckName zeroConfig"
    by blast
  from shape c have "decodeConfig lib j zeroConfig = Inr cfg"
    by auto
  with assms have "fst (LoadConfig lib w tr) = (cfg, None)"
    by (simp add: LoadConfig_def decoderDecode_def Let_def)
  with a d
  show "\<exists>cfg. fst (LoadConfig lib w tr) = (cfg, None) \<and>
         ((\<forall>(k, v) \<in> set kvs. fieldFor lib configFields k \<noteq> Some ''apiKey'') \<longrightarrow>
            APIKey cfg = '''') \<and>
         ((\<forall>(k, v) \<in> set kvs. fieldFor lib configFields k \<noteq> Some ''deckName'') \<longrightarrow>
            DeckName cfg = '''')"
    by (simp add: zeroConfig_def)
next
  assume h: "j = JObject kvs \<and>
      (\<exists>(k, v) \<in> set kvs.
         fieldFor lib configFields k \<noteq> None \<and> \<not> (v = JNull \<or> (\<exists>s. v = JString s)))"
  then have "decodeConfig lib j zeroConfig = Inl UnmarshalTypeError"
    using decodeConfigMembers_fail [of kvs lib zeroConfig] by simp
  with assms show "fst (LoadConfig lib w tr) = (zeroConfig, Some UnmarshalTypeError)"
    by (simp add: LoadConfig_def decoderDecode_def Let_def)
next
  assume "(\<exists>x. j = JBool x) \<or> (\<exists>n. j = JNumber n) \<or> (\<exists>s. j = JString s) \<or> (\<exists>vs. j = JArray vs)"
  then have "decodeConfig lib j zeroConfig = Inl UnmarshalTypeError"
    by auto
  with assms show "fst (LoadConfig lib w tr) = (zeroConfig, Some UnmarshalTypeError)"
    by (simp add: LoadConfig_def decoderDecode_def Let_def)
qed

theorem LoadConfig_missing_field_empty_witness:
  "userHomeDir deckOnlyWorld = Inr ''/home/u'' \<and>
   osOpen deckOnlyWorld (''/home/u'' @ ''/.config/dict2anki/config.json'') =
     Inr (Reader deckOnlyConfigText None) \<and>
   scanNext exampleLib (Reader deckOnlyConfigText None) =
     Inr (JObject [(''deckName'', JString ''English'')]) \<and>
   fst (LoadConfig exampleLib deckOnlyWorld []) =
     (\<lparr>APIKey = '''', DeckName = ''English''\<rparr>, None) \<and>
   scanNext exampleLib (Reader deckNumberConfigText None) =
     Inr (JObject [(''deckName'', JNumber ''5'')]) \<and>
   fst (LoadConfig exampleLib deckNumberWorld []) = (zeroConfig, Some UnmarshalTypeError) \<and>
   scanNext exampleLib (Reader listConfigText None) =
     Inr (JArray [JString ''K'', JString ''English'']) \<and>
   fst (LoadConfig exampleLib listConfigWorld []) = (zeroConfig, Some UnmarshalTypeError)"
proof -
  let ?p = "''/home/u'' @ ''/.config/dict2anki/config.json''"
  let ?kvs = "[(''deckName'', JString ''English'')]"
  let ?bad = "[(''deckName'', JNumber ''5'')]"
  have h: "userHomeDir deckOnlyWorld = Inr ''/home/u''"
    by (simp add: deckOnlyWorld_def runWorld_def)
  have p: "osOpen deckOnlyWorld ?p = Inr (Reader deckOnlyConfigText None)"
    by (simp add: deckOnlyWorld_def)
  have s: "scanNext exampleLib (Reader deckOnlyConfigText None) = Inr (JObject ?kvs)"
    by (simp add: ex_defs)
  have o: "(JObject ?kvs = JObject ?kvs \<or> JObject ?kvs = JNull \<and> ?kvs = []) \<and>
      (\<forall>(k, v) \<in> set ?kvs.
         fieldFor exampleLib configFields k \<noteq> None \<longrightarrow> v = JNull \<or> (\<exists>s. v = JString s))"
    by simp
  have m: "\<forall>(k, v) \<in> set ?kvs. fieldFor exampleLib configFields k \<noteq> Some ''apiKey''"
    by (simp add: fieldFor_def configFields_def)
  have r: "fst (LoadConfig exampleLib deckOnlyWorld []) =
      (\<lparr>APIKey = '''', DeckName = ''English''\<rparr>, None)"
    by (simp add: LoadConfig_def Let_def dec_defs deckOnlyWorld_def ex_defs)
  from LoadConfig_missing_field_empty [OF h p s, of ?kvs "[]"] o m
  have good: "\<exists>cfg. fst (LoadConfig exampleLib deckOnlyWorld []) = (cfg, None) \<and>
      APIKey cfg = ''''"
    by blast
  have h2: "userHomeDir deckNumberWorld = Inr ''/home/u''"
    by (simp add: deckNumberWorld_def runWorld_def)
  have p2: "osOpen deckNumberWorld ?p = Inr (Reader deckNumberConfigText None)"
    by (simp add: deckNumberWorld_def)
  have s2: "scanNext exampleLib (Reader deckNumberConfigText None) = Inr (JObject ?bad)"
    by (simp add: ex_defs)
  have o2: "JObject ?bad = JObject ?bad \<and>
      (\<exists>(k, v) \<in> set ?bad.
         fieldFor exampleLib configFields k \<noteq> None \<and> \<not> (v = JNull \<or> (\<exists>s. v = JString s)))"
    by (simp add: fieldFor_def configFields_def)
  from LoadConfig_missing_field_empty [OF h2 p2 s2, of ?bad "[]"] o2
  have bad: "fst (LoadConfig exampleLib deckNumberWorld []) = (zeroConfig, Some UnmarshalTypeError)"
    by blast
  have h3: "userHomeDir listConfigWorld = Inr ''/home/u''"
    by (simp add: listConfigWorld_def runWorld_def)
  have p3: "osOpen listConfigWorld ?p = Inr (Reader listConfigText None)"
    by (simp add: listConfigWorld_def)
  have s3: "scanNext exampleLib (Reader listConfigText None) =
      Inr (JArray [JString ''K'', JString ''English''])"
    by (simp add: ex_defs)
  from LoadConfig_missing_field_empty [OF h3 p3 s3, of _ "[]"]
  have arr: "fst (LoadConfig exampleLib listConfigWorld []) = (zeroConfig, Some UnmarshalTypeError)"
    by blast
  from good r h p s s2 bad s3 arr show ?thesis by simp
qed

text \<open>
  C7, as stated, fails: a config file that is valid JSON and has no \<open>apiKey\<close> member, but
  whose \<open>deckName\<close> is the number 5, does not load. \<open>LoadConfig\<close> returns the zero
  \<open>Config\<close> and the decoder's type error.
\<close>

theorem LoadConfig_wrong_type_fails:
  "scanNext exampleLib (Reader deckNumberConfigText None) =
     Inr (JObject [(''deckName'', JNumber ''5'')]) \<and>
   fieldFor exampleLib configFields ''deckName'' = Some ''deckName'' \<and>
   LoadConfig exampleLib deckNumberWorld [] =
     ((zeroConfig, Some UnmarshalTypeError),
      [UserHomeDir, Open ''/home/u/.config/dict2anki/config.json'',
       Close ''/home/u/.config/dict2anki/config.json''])"
  by (simp add: LoadConfig_def Let_def dec_defs deckNumberWorld_def ex_defs)

section \<open>The orchestrator\<close>

text \<open>
  Apart from the two index faults, \<open>main\<close> ends as the specification says: when it
  returns, the last thing it did was print a line, and the exit status is 0. When it does
  not return, it panicked on \<open>os.Args[1]\<close> or on \<open>cards[0]\<close>.
\<close>

lemma main_returns_or_index_fault:
  "(fst (main lib w) = Return () \<longrightarrow>
      exitStatus (fst (main lib w)) = 0 \<and> (\<exists>tr s. snd (main lib w) = tr @ [Println s])) \<and>
   (\<forall>p. fst (main lib w) = Panicked p \<longrightarrow>
      p = IndexOutOfRange 1 1 \<and> length (args w) = 1 \<or> p = IndexOutOfRange 0 0)"
  by (auto simp: fn_defs length_one
           split: sum.splits option.splits list.splits outcome.splits prod.splits if_splits)

text \<open>
  C5. In every run in which the duplicate search was made and came back with at least one
  card, \<open>main\<close> returns (it does not panic, and the exit status is that of success), the
  last two events of the run are that search and the line \<open>Duplicate detected, omitting.\<close>,
  and no note was submitted. And in every run in which a note was submitted, the call
  just before it was the duplicate search, and that search came back empty.
\<close>

theorem main_duplicate_skips_add:
  "(\<forall>q cs. CardsGet q \<in> set (snd (main lib w)) \<and> ankiCardsGet w q = Inr cs \<and> cs \<noteq> [] \<longrightarrow>
       fst (main lib w) = Return () \<and> exitStatus (fst (main lib w)) = 0 \<and>
       (\<exists>tr. snd (main lib w) = tr @ [CardsGet q, Println ''Duplicate detected, omitting.'']) \<and>
       (\<forall>n. NotesAdd n \<notin> set (snd (main lib w)))) \<and>
   (\<forall>n. NotesAdd n \<in> set (snd (main lib w)) \<longrightarrow>
       (\<exists>q. CardsGet q \<in> set (snd (main lib w)) \<and> ankiCardsGet w q = Inr [] \<and>
          last (butlast (butlast (snd (main lib w)))) = CardsGet q \<and>
          last (butlast (snd (main lib w))) = NotesAdd n))"
  by (auto simp: fn_defs
           split: sum.splits option.splits list.splits outcome.splits prod.splits if_splits)

theorem main_duplicate_skips_add_witness:
  "CardsGet ([CHR 0x22] @ ''deck:English'' @ [CHR 0x22] @ '' '' @ [CHR 0x22] @ ''front:run''
             @ [CHR 0x22]) \<in> set (snd (main exampleLib duplicateWorld)) \<and>
   ankiCardsGet duplicateWorld
     ([CHR 0x22] @ ''deck:English'' @ [CHR 0x22] @ '' '' @ [CHR 0x22] @ ''front:run''
      @ [CHR 0x22]) = Inr [1502] \<and>
   fst (main exampleLib duplicateWorld) = Return () \<and>
   (\<forall>n. NotesAdd n \<notin> set (snd (main exampleLib duplicateWorld))) \<and>
   NotesAdd \<lparr>NoteDeckName = ''English'', NoteModelName = ''Basic'',
             NoteFields = [''Front'' \<mapsto> ''Run'', ''Back'' \<mapsto> ''verb<br><br>to move fast'']\<rparr>
     \<in> set (snd (main exampleLib runWorld)) \<and>
   (\<exists>q. CardsGet q \<in> set (snd (main exampleLib runWorld)) \<and> ankiCardsGet runWorld q = Inr [])"
proof -
  let ?q = "[CHR 0x22] @ ''deck:English'' @ [CHR 0x22] @ '' '' @ [CHR 0x22] @ ''front:run''
            @ [CHR 0x22]"
  let ?n = "\<lparr>NoteDeckName = ''English'', NoteModelName = ''Basic'',
             NoteFields = [''Front'' \<mapsto> ''Run'', ''Back'' \<mapsto> ''verb<br><br>to move fast'']\<rparr>"
  have a: "CardsGet ?q \<in> set (snd (main exampleLib duplicateWorld))"
    by (simp add: main_duplicateWorld)
  have b: "ankiCardsGet duplicateWorld ?q = Inr [1502] \<and> [1502::nat] \<noteq> []"
    by (simp add: duplicateWorld_def)
  have c: "NotesAdd ?n \<in> set (snd (main exampleLib runWorld))"
    by (simp add: main_runWorld)
  from main_duplicate_skips_add [of exampleLib duplicateWorld] a b
  have d: "fst (main exampleLib duplicateWorld) = Return () \<and>
      (\<forall>n. NotesAdd n \<notin> set (snd (main exampleLib duplicateWorld)))"
    by blast
  from main_duplicate_skips_add [of exampleLib runWorld] c
  have e: "\<exists>q. CardsGet q \<in> set (snd (main exampleLib runWorld)) \<and>
      ankiCardsGet runWorld q = Inr []"
    by blast
  from a b c d e show ?thesis by blast
qed

text \<open>
  C6 fails on the code. The test of \<open>main\<close> is \<open>len(os.Args) == 0\<close>, and an argument
  vector that holds the program name alone has length 1. In every such run the help text
  is not printed, the run goes on to load the config (its first event is the look-up of
  the home directory), and when the config loads and Anki answers the ping, \<open>main\<close>
  panics on \<open>os.Args[1]\<close>: index 1 out of range for length 1.
\<close>

theorem main_missing_word:
  assumes "length (args w) = 1"
  shows "Println helpText \<notin> set (snd (main lib w)) \<and>
    (\<exists>tr. snd (main lib w) = UserHomeDir # tr) \<and>
    (snd (fst (LoadConfig lib w [])) = None \<and> ankiPing w = None \<longrightarrow>
       fst (main lib w) = Panicked (IndexOutOfRange 1 1))"
  using assms
  by (auto simp: main_def LoadConfig_def Let_def helpText_def split: sum.splits option.splits)

theorem main_missing_word_witness:
  "length (args noWordWorld) = 1 \<and>
   snd (fst (LoadConfig exampleLib noWordWorld [])) = None \<and>
   ankiPing noWordWorld = None \<and>
   Println helpText \<notin> set (snd (main exampleLib noWordWorld)) \<and>
   (\<exists>tr. snd (main exampleLib noWordWorld) = UserHomeDir # tr) \<and>
   fst (main exampleLib noWordWorld) = Panicked (IndexOutOfRange 1 1)"
proof -
  have a: "length (args noWordWorld) = 1"
    by (simp add: noWordWorld_def)
  have b: "snd (fst (LoadConfig exampleLib noWordWorld [])) = None"
    by (simp add: LoadConfig_def Let_def dec_defs noWordWorld_def ex_defs)
  have c: "ankiPing noWordWorld = None"
    by (simp add: noWordWorld_def runWorld_def)
  from main_missing_word [OF a, of exampleLib] a b c show ?thesis by blast
qed

text \<open>
  C9 fails on the code. Two runs do not end by a return of \<open>main\<close>: the run with no
  word argument and the run whose dictionary response is the empty array both panic, and
  the process exits with status 2, while the run that adds the note and the run that
  cannot reach the dictionary both exit with status 0.
\<close>

theorem main_exit_status_differs:
  "fst (main exampleLib noWordWorld) = Panicked (IndexOutOfRange 1 1) \<and>
   exitStatus (fst (main exampleLib noWordWorld)) = 2 \<and>
   fst (main exampleLib emptyArrayWorld) = Panicked (IndexOutOfRange 0 0) \<and>
   exitStatus (fst (main exampleLib emptyArrayWorld)) = 2 \<and>
   exitStatus (fst (main exampleLib runWorld)) = 0 \<and>
   exitStatus (fst (main exampleLib netDownWorld)) = 0"
  by (simp add: main_noWordWorld main_emptyArrayWorld main_runWorld main_netDownWorld)

end
